theory Spec2Isabelle
  imports Complex_Main "HOL-Library.Sublist"
begin

section \<open>Python strings\<close>

text \<open>
  A Python \<open>str\<close> is modelled as a \<open>string\<close> whose characters are read as the code
  points U+0000 to U+00FF. The operations below are the ones \<open>src/api/app.py\<close> applies
  to strings: \<open>sub in s\<close>, \<open>s.startswith(p)\<close>, \<open>s.lower()\<close>, \<open>s.strip()\<close> and
  \<open>sep.join(xs)\<close>.
\<close>

fun occurs_in :: "string \<Rightarrow> string \<Rightarrow> bool" where
  "occurs_in sub [] = (sub = [])"
| "occurs_in sub (c # cs) = (prefix sub (c # cs) \<or> occurs_in sub cs)"

definition startswith :: "string \<Rightarrow> string \<Rightarrow> bool" where
  "startswith s p = prefix p s"

definition lower_char :: "char \<Rightarrow> char" where
  "lower_char c =
     (let n = (of_char c :: nat)
      in if (65 \<le> n \<and> n \<le> 90) \<or> (192 \<le> n \<and> n \<le> 222 \<and> n \<noteq> 215)
         then char_of (n + 32) else c)"

definition lower :: "string \<Rightarrow> string" where
  "lower s = map lower_char s"

definition isspace :: "char \<Rightarrow> bool" where
  "isspace c =
     (let n = (of_char c :: nat)
      in (9 \<le> n \<and> n \<le> 13) \<or> (28 \<le> n \<and> n \<le> 32) \<or> n = 133 \<or> n = 160)"

definition strip :: "string \<Rightarrow> string" where
  "strip s = rev (dropWhile isspace (rev (dropWhile isspace s)))"

fun join :: "string \<Rightarrow> string list \<Rightarrow> string" where
  "join sep [] = []"
| "join sep [x] = x"
| "join sep (x # y # ys) = x @ sep @ join sep (y # ys)"

section \<open>Python dictionaries\<close>

text \<open>
  A \<open>dict\<close> keeps its keys in insertion order, and \<open>frameworks.items()\<close> is read in that
  order, so the dictionary is an association list. Assigning to a key that is present
  keeps its position; \<open>d[k]\<close> on a missing key raises \<open>KeyError\<close>, which is \<open>None\<close> of
  \<open>map_of\<close> here.
\<close>

type_synonym ('k, 'v) dict = "('k \<times> 'v) list"

fun setitem :: "('k, 'v) dict \<Rightarrow> 'k \<Rightarrow> 'v \<Rightarrow> ('k, 'v) dict" where
  "setitem [] k v = [(k, v)]"
| "setitem ((k', v') # d) k v =
     (if k' = k then (k, v) # d else (k', v') # setitem d k v)"

section \<open>The parsed page\<close>

text \<open>
  \<open>detect_framework\<close> reads three things from the \<open>BeautifulSoup\<close> object:
  \<open>soup.find_all('meta')\<close>, \<open>soup.find_all('script')\<close> and \<open>str(soup)\<close>. A tag is read
  only through \<open>tag.get(name, default)\<close>, so it is its attribute dictionary. \<open>str(soup)\<close>
  is the serialisation of the whole tree: for the page \<open><meta content="x">\<close> it is
  \<open><meta content="x"/>\<close>, so the text of every attribute is part of it.
\<close>

type_synonym tag = "(string, string) dict"

definition tag_get :: "tag \<Rightarrow> string \<Rightarrow> string \<Rightarrow> string" where
  "tag_get t name dflt = (case map_of t name of None \<Rightarrow> dflt | Some v \<Rightarrow> v)"

record soup =
  meta_tags :: "tag list"
  script_tags :: "tag list"
  markup :: string

text \<open>
  The dictionary a call returns: \<open>{'compatible': False, 'error': e}\<close> or
  \<open>{'compatible': True, 'frameworks': fs}\<close>.
\<close>

datatype result = Failure string | Success "string list"

fun compatible :: "result \<Rightarrow> bool" where
  "compatible (Failure e) = False"
| "compatible (Success fs) = True"

section \<open>The detection heuristic (lines 69 to 155 of \<open>src/api/app.py\<close>)\<close>

definition frameworks_init :: "(string, bool) dict" where
  "frameworks_init =
     [(''React'', False), (''Vue'', False), (''Angular'', False), (''Next.js'', False),
      (''Wix'', False), (''Squarespace'', False), (''Shopify'', False), (''Webflow'', False)]"

definition check_meta :: "(string, bool) dict \<Rightarrow> tag \<Rightarrow> (string, bool) dict" where
  "check_meta frameworks meta =
     (let content = lower (tag_get meta ''content'' '''')
      in if occurs_in ''react'' content then setitem frameworks ''React'' True
         else if occurs_in ''angular'' content then setitem frameworks ''Angular'' True
         else if occurs_in ''next'' content then setitem frameworks ''Next.js'' True
         else frameworks)"

definition check_script :: "(string, bool) dict \<Rightarrow> tag \<Rightarrow> (string, bool) dict" where
  "check_script frameworks script =
     (let src = lower (tag_get script ''src'' '''')
      in if occurs_in ''react'' src then setitem frameworks ''React'' True
         else if occurs_in ''angular'' src then setitem frameworks ''Angular'' True
         else if occurs_in ''next'' src then setitem frameworks ''Next.js'' True
         else frameworks)"

definition react_marker :: "string \<Rightarrow> bool" where
  "react_marker page_source =
     (occurs_in ''data-reactroot'' page_source \<or> occurs_in ''react-root'' page_source)"

definition angular_marker :: "string \<Rightarrow> bool" where
  "angular_marker page_source =
     (occurs_in ''ng-'' page_source \<or> occurs_in ''angular'' page_source)"

definition next_marker :: "string \<Rightarrow> bool" where
  "next_marker page_source = occurs_in ''__next'' page_source"

definition check_indicators :: "(string, bool) dict \<Rightarrow> string \<Rightarrow> (string, bool) dict" where
  "check_indicators frameworks page_source =
     (let f1 = (if react_marker page_source then setitem frameworks ''React'' True
                else frameworks);
          f2 = (if angular_marker page_source then setitem f1 ''Angular'' True else f1)
      in if next_marker page_source then setitem f2 ''Next.js'' True else f2)"

definition wix_signature :: "string \<Rightarrow> string \<Rightarrow> bool" where
  "wix_signature url page_source =
     (occurs_in ''wixsite.com'' url \<or> occurs_in ''static.parastorage.com'' page_source
      \<or> occurs_in ''wix.com'' page_source)"

definition squarespace_signature :: "string \<Rightarrow> bool" where
  \<open>squarespace_signature page_source =
     (occurs_in ''squarespace.com'' page_source
      \<or> occurs_in ''content="Squarespace"'' page_source)\<close>

definition shopify_signature :: "string \<Rightarrow> bool" where
  \<open>shopify_signature page_source =
     (occurs_in ''cdn.shopify.com'' page_source
      \<or> occurs_in ''content="Shopify"'' page_source
      \<or> occurs_in ''shopify'' page_source)\<close>

definition webflow_signature :: "string \<Rightarrow> bool" where
  \<open>webflow_signature page_source =
     (occurs_in ''webflow.com'' page_source
      \<or> occurs_in ''content="Webflow"'' page_source)\<close>

definition check_builders ::
  "(string, bool) dict \<Rightarrow> string \<Rightarrow> string \<Rightarrow> (string, bool) dict" where
  "check_builders frameworks url page_source =
     (let f1 = (if wix_signature url page_source then setitem frameworks ''Wix'' True
                else frameworks);
          f2 = (if squarespace_signature page_source then setitem f1 ''Squarespace'' True
                else f1);
          f3 = (if shopify_signature page_source then setitem f2 ''Shopify'' True else f2)
      in if webflow_signature page_source then setitem f3 ''Webflow'' True else f3)"

definition site_builders :: "string list" where
  "site_builders = [''Wix'', ''Squarespace'', ''Shopify'', ''Webflow'']"

text \<open>
  \<open>[fw for fw in site_builders if frameworks[fw]]\<close>: the keys are looked up from left to
  right, and the first missing one raises \<open>KeyError\<close> (\<open>Inl\<close> of the key).
\<close>

fun detected_builders :: "(string, bool) dict \<Rightarrow> string list \<Rightarrow> string + string list" where
  "detected_builders frameworks [] = Inr []"
| "detected_builders frameworks (fw # fws) =
     (case map_of frameworks fw of
        None \<Rightarrow> Inl fw
      | Some b \<Rightarrow>
          (case detected_builders frameworks fws of
             Inl e \<Rightarrow> Inl e
           | Inr r \<Rightarrow> Inr (if b then fw # r else r)))"

text \<open>\<open>[fw for fw, detected in frameworks.items() if detected]\<close>\<close>

definition detected :: "(string, bool) dict \<Rightarrow> string list" where
  "detected frameworks = map fst (filter snd frameworks)"

definition scan :: "string \<Rightarrow> soup \<Rightarrow> (string, bool) dict" where
  "scan url s =
     (let f1 = foldl check_meta frameworks_init (meta_tags s);
          f2 = foldl check_script f1 (script_tags s);
          page_source = lower (markup s);
          f3 = check_indicators f2 page_source
      in check_builders f3 url page_source)"

definition classify :: "string \<Rightarrow> soup \<Rightarrow> result" where
  "classify url s =
     (let frameworks = scan url s
      in case detected_builders frameworks site_builders of
           Inl k \<Rightarrow> Failure (''Error parsing website content: '' @ [CHR 0x27] @ k @ [CHR 0x27])
         | Inr builders \<Rightarrow>
             if builders \<noteq> []
             then Failure (''Framework not supported: '' @ join '', '' builders)
             else if detected frameworks \<noteq> [] then Success (detected frameworks)
             else Success [''Unknown''])"

section \<open>Fetching the page (lines 30 to 66 and 151 to 161)\<close>

text \<open>
  \<open>requests.get(url, timeout=10)\<close> followed by \<open>raise_for_status()\<close> either raises one of
  the exceptions the source catches, in the order of its \<open>except\<close> clauses, or yields the
  response text. An exception carries its \<open>str(e)\<close>.
\<close>

datatype get_outcome =
    Timeout
  | SSLError
  | ConnectionError
  | HTTPError string
  | RequestException string
  | OtherException string
  | Response string

text \<open>
  \<open>BeautifulSoup(response.text, 'html.parser')\<close> is called outside the inner \<open>try\<close>; the
  reads of the soup (\<open>find_all\<close>, \<open>get\<close>, \<open>str\<close>) are inside it. An exception of the
  constructor reaches the outer handler, one of a read reaches the inner handler.
\<close>

datatype soup_outcome =
    ConstructorRaised string
  | ReadRaised string
  | Parsed soup

text \<open>
  JSON values as \<open>request.get_json()\<close> returns them, and the two interpreter errors that
  \<open>'url' not in data\<close> and \<open>data['url']\<close> can raise on a value that is not an object.
\<close>

datatype json =
    JNull
  | JBool bool
  | JInt int
  | JFloat real
  | JString string
  | JArray "json list"
  | JObject "(string \<times> json) list"

datatype type_error = NotIterable json | BadIndex json

text \<open>
  The libraries and the interpreter are parameters of the model: the network, the parser
  and the text of an interpreter exception.
\<close>

record env =
  requests_get :: "string \<Rightarrow> get_outcome"
  BeautifulSoup :: "string \<Rightarrow> soup_outcome"
  exception_text :: "type_error \<Rightarrow> string"

definition with_scheme :: "string \<Rightarrow> string" where
  "with_scheme url =
     (if \<not> (startswith url ''http://'' \<or> startswith url ''https://'')
      then ''https://'' @ url else url)"

text \<open>
  The second component is the list of URLs passed to \<open>requests.get\<close> so far: the effect of
  the function on the outside world.
\<close>

definition detect_framework ::
  "env \<Rightarrow> string \<Rightarrow> string list \<Rightarrow> result \<times> string list" where
  "detect_framework env url0 fetched =
     (let url = with_scheme url0
      in ((case requests_get env url of
             Timeout \<Rightarrow>
               Failure ''Request timed out. Please check the URL and try again.''
           | SSLError \<Rightarrow>
               Failure ''SSL certificate verification failed. The site might not be secure.''
           | ConnectionError \<Rightarrow>
               Failure ''Could not connect to the website. Please check the URL and try again.''
           | HTTPError e \<Rightarrow> Failure (''HTTP Error: '' @ e)
           | RequestException e \<Rightarrow> Failure (''Error accessing the website: '' @ e)
           | OtherException e \<Rightarrow> Failure (''Unexpected error: '' @ e)
           | Response text \<Rightarrow>
               (case BeautifulSoup env text of
                  ConstructorRaised e \<Rightarrow> Failure (''Unexpected error: '' @ e)
                | ReadRaised e \<Rightarrow> Failure (''Error parsing website content: '' @ e)
                | Parsed s \<Rightarrow> classify url s)),
          fetched @ [url]))"

section \<open>The request handler (lines 163 to 199)\<close>

text \<open>\<open>request.get_json()\<close> returns a value or raises inside the handler's \<open>try\<close>.\<close>

datatype body = GetJsonRaised string | Json json

fun truthy :: "json \<Rightarrow> bool" where
  "truthy JNull = False"
| "truthy (JBool b) = b"
| "truthy (JInt i) = (i \<noteq> 0)"
| "truthy (JFloat x) = (x \<noteq> 0)"
| "truthy (JString s) = (s \<noteq> [])"
| "truthy (JArray xs) = (xs \<noteq> [])"
| "truthy (JObject kvs) = (kvs \<noteq> [])"

text \<open>\<open>'url' in data\<close>: a key of a dict, an element of a list, a substring of a string.\<close>

fun url_in :: "json \<Rightarrow> type_error + bool" where
  "url_in (JObject kvs) = Inr (map_of kvs ''url'' \<noteq> None)"
| "url_in (JArray xs) = Inr (JString ''url'' \<in> set xs)"
| "url_in (JString s) = Inr (occurs_in ''url'' s)"
| "url_in j = Inl (NotIterable j)"

text \<open>\<open>data['url']\<close>; on a dict without the key it is a \<open>KeyError\<close>, whose text is \<open>'url'\<close>.\<close>

fun getitem_url :: "env \<Rightarrow> json \<Rightarrow> string + json" where
  "getitem_url env (JObject kvs) =
     (case map_of kvs ''url'' of None \<Rightarrow> Inl ([CHR 0x27] @ ''url'' @ [CHR 0x27]) | Some v \<Rightarrow> Inr v)"
| "getitem_url env j = Inl (exception_text env (BadIndex j))"

text \<open>The handler returns a status and the dictionary passed to \<open>jsonify\<close>.\<close>

definition check_site ::
  "env \<Rightarrow> body \<Rightarrow> string list \<Rightarrow> (nat \<times> result) \<times> string list" where
  "check_site env req fetched =
     (case req of
        GetJsonRaised e \<Rightarrow> ((500, Failure (''Server error: '' @ e)), fetched)
      | Json data \<Rightarrow>
          if \<not> truthy data then ((400, Failure ''No data provided''), fetched)
          else
            (case url_in data of
               Inl e \<Rightarrow> ((500, Failure (''Server error: '' @ exception_text env e)), fetched)
             | Inr False \<Rightarrow> ((400, Failure ''URL is required''), fetched)
             | Inr True \<Rightarrow>
                 (case getitem_url env data of
                    Inl e \<Rightarrow> ((500, Failure (''Server error: '' @ e)), fetched)
                  | Inr (JString u) \<Rightarrow>
                      (let url = strip u
                       in if url = [] then ((400, Failure ''URL cannot be empty''), fetched)
                          else (let (result, fetched') = detect_framework env url fetched
                                in ((200, result), fetched')))
                  | Inr _ \<Rightarrow> ((400, Failure ''URL must be a string''), fetched))))"

section \<open>Vocabulary of the properties\<close>

text \<open>
  The definitions of this section are not functions of the program; they name what the
  properties below speak about. \<open>flags\<close> is the \<open>frameworks\<close> dictionary with its eight
  keys in the order of the literal on lines 69 to 78.
\<close>

definition flags ::
  "bool \<Rightarrow> bool \<Rightarrow> bool \<Rightarrow> bool \<Rightarrow> bool \<Rightarrow> bool \<Rightarrow> bool \<Rightarrow> bool \<Rightarrow> (string, bool) dict" where
  "flags r v a n w s sh wb =
     [(''React'', r), (''Vue'', v), (''Angular'', a), (''Next.js'', n),
      (''Wix'', w), (''Squarespace'', s), (''Shopify'', sh), (''Webflow'', wb)]"

text \<open>The technology one tag registers: the first branch of the \<open>if\<close>/\<open>elif\<close> chain that fires.\<close>

definition first_match :: "string \<Rightarrow> string option" where
  "first_match text =
     (if occurs_in ''react'' text then Some ''React''
      else if occurs_in ''angular'' text then Some ''Angular''
      else if occurs_in ''next'' text then Some ''Next.js''
      else None)"

definition tag_hits :: "string \<Rightarrow> tag list \<Rightarrow> string \<Rightarrow> bool" where
  "tag_hits attr tags fw =
     (\<exists>t \<in> set tags. first_match (lower (tag_get t attr '''')) = Some fw)"

definition evidence :: "soup \<Rightarrow> string \<Rightarrow> bool" where
  "evidence s fw =
     (tag_hits ''content'' (meta_tags s) fw \<or> tag_hits ''src'' (script_tags s) fw)"

definition builder_matches :: "string \<Rightarrow> string \<Rightarrow> string \<Rightarrow> bool" where
  "builder_matches url page_source b =
     ((b = ''Wix'' \<and> wix_signature url page_source)
      \<or> (b = ''Squarespace'' \<and> squarespace_signature page_source)
      \<or> (b = ''Shopify'' \<and> shopify_signature page_source)
      \<or> (b = ''Webflow'' \<and> webflow_signature page_source))"

definition framework_matches :: "soup \<Rightarrow> string \<Rightarrow> bool" where
  "framework_matches s fw =
     ((fw = ''React'' \<and> (evidence s ''React'' \<or> react_marker (lower (markup s))))
      \<or> (fw = ''Angular'' \<and> (evidence s ''Angular'' \<or> angular_marker (lower (markup s))))
      \<or> (fw = ''Next.js'' \<and> (evidence s ''Next.js'' \<or> next_marker (lower (markup s)))))"

definition js_frameworks :: "string list" where
  "js_frameworks = [''React'', ''Angular'', ''Next.js'']"

text \<open>
  A request the handler passes on: a JSON object whose \<open>url\<close> is a string that is not
  empty once stripped.
\<close>

definition valid_request :: "body \<Rightarrow> bool" where
  "valid_request req =
     (case req of
        Json (JObject kvs) \<Rightarrow>
          (case map_of kvs ''url'' of Some (JString u) \<Rightarrow> strip u \<noteq> [] | _ \<Rightarrow> False)
      | _ \<Rightarrow> False)"

subsection \<open>Example pages and environments\<close>

text \<open>
  Each page is what the parser yields for the HTML text shown in its \<open>markup\<close> field:
  the tags of \<open>find_all\<close> and the serialisation \<open>str(soup)\<close> belong to one document.
\<close>

definition plain_page :: soup where
  \<open>plain_page =
     \<lparr>meta_tags = [[(''name'', ''description''), (''content'', ''A plain page'')]],
      script_tags = [[(''src'', ''/static/app.js'')]],
      markup = ''<meta name="description" content="A plain page"/><script src="/static/app.js"></script>''\<rparr>\<close>

definition react_page :: soup where
  \<open>react_page =
     \<lparr>meta_tags = [], script_tags = [],
      markup = ''<div id="root" data-reactroot=""><p>Hello</p></div>''\<rparr>\<close>

definition shop_page :: soup where
  \<open>shop_page =
     \<lparr>meta_tags = [],
      script_tags = [[(''src'', ''https://cdn.shopify.com/s/react.js'')]],
      markup = ''<div data-reactroot=""></div><script src="https://cdn.shopify.com/s/react.js"></script>''\<rparr>\<close>

definition one_meta_page :: soup where
  \<open>one_meta_page =
     \<lparr>meta_tags = [[(''content'', ''react angular'')]], script_tags = [],
      markup = ''<meta content="react angular"/>''\<rparr>\<close>

definition title_case_page :: soup where
  \<open>title_case_page =
     \<lparr>meta_tags = [[(''content'', ''React App'')]], script_tags = [],
      markup = ''<meta content="React App"/>''\<rparr>\<close>

definition lower_case_page :: soup where
  \<open>lower_case_page =
     \<lparr>meta_tags = [[(''content'', ''react app'')]], script_tags = [],
      markup = ''<meta content="react app"/>''\<rparr>\<close>

definition squarespace_page :: soup where
  \<open>squarespace_page =
     \<lparr>meta_tags = [[(''content'', ''Squarespace'')]],
      script_tags = [],
      markup = ''<meta content="Squarespace"/>''\<rparr>\<close>

definition webflow_page :: soup where
  \<open>webflow_page =
     \<lparr>meta_tags = [[(''content'', ''Webflow'')]],
      script_tags = [],
      markup = ''<meta content="Webflow"/>''\<rparr>\<close>

definition shopify_generator_page :: soup where
  \<open>shopify_generator_page =
     \<lparr>meta_tags = [[(''content'', ''Shopify'')]],
      script_tags = [],
      markup = ''<meta content="Shopify"/>''\<rparr>\<close>

definition blank_env :: env where
  "blank_env =
     \<lparr>requests_get = (\<lambda>url. Response ''''),
      BeautifulSoup = (\<lambda>text. Parsed \<lparr>meta_tags = [], script_tags = [], markup = ''''\<rparr>),
      exception_text = (\<lambda>e. '''')\<rparr>"

definition timeout_env :: env where
  "timeout_env =
     \<lparr>requests_get = (\<lambda>url. Timeout),
      BeautifulSoup = (\<lambda>text. Parsed \<lparr>meta_tags = [], script_tags = [], markup = ''''\<rparr>),
      exception_text = (\<lambda>e. '''')\<rparr>"

section \<open>Strings\<close>

lemma occurs_in_sublist: "occurs_in sub s \<longleftrightarrow> sublist sub s"
  by (induction s) (auto simp: sublist_Cons_right)

lemma occurs_in_append: "occurs_in sub s \<Longrightarrow> occurs_in sub (p @ s)"
  by (induction p) auto

lemma occurs_in_set: "occurs_in sub s \<Longrightarrow> set sub \<subseteq> set s"
  by (auto simp: occurs_in_sublist dest: set_mono_sublist)

lemma occurs_in_lower:
  assumes "occurs_in sub s" and "lower sub = sub"
  shows "occurs_in sub (lower s)"
proof -
  from assms(1) have "sublist (map lower_char sub) (map lower_char s)"
    by (simp add: occurs_in_sublist map_mono_sublist)
  with assms(2) show ?thesis
    by (simp add: occurs_in_sublist lower_def)
qed

lemma lower_data_reactroot: "lower ''data-reactroot'' = ''data-reactroot''"
  by (simp add: lower_def lower_char_def)

lemma lower_char_not_upper: "of_char (lower_char c) \<notin> {65..(90::nat)}"
  by (auto simp: lower_char_def Let_def)

lemma lower_no_upper: "c \<in> set (lower s) \<Longrightarrow> of_char c \<notin> {65..(90::nat)}"
  using lower_char_not_upper by (auto simp: lower_def)

text \<open>
  The page source is lowercased before it is searched, so the three patterns of lines 120
  to 124 that contain a capital letter match no page.
\<close>

lemma capital_patterns_never_match:
  \<open>\<not> occurs_in ''content="Squarespace"'' (lower m)\<close>
  \<open>\<not> occurs_in ''content="Shopify"'' (lower m)\<close>
  \<open>\<not> occurs_in ''content="Webflow"'' (lower m)\<close>
proof -
  have S: "CHR ''S'' \<notin> set (lower m)" and W: "CHR ''W'' \<notin> set (lower m)"
    using lower_no_upper [of _ m] by fastforce+
  show \<open>\<not> occurs_in ''content="Squarespace"'' (lower m)\<close>
    using S occurs_in_set [of \<open>''content="Squarespace"''\<close> "lower m"] by auto
  show \<open>\<not> occurs_in ''content="Shopify"'' (lower m)\<close>
    using S occurs_in_set [of \<open>''content="Shopify"''\<close> "lower m"] by auto
  show \<open>\<not> occurs_in ''content="Webflow"'' (lower m)\<close>
    using W occurs_in_set [of \<open>''content="Webflow"''\<close> "lower m"] by auto
qed

section \<open>The flags dictionary through the scan\<close>

lemma frameworks_init_flags:
  "frameworks_init = flags False False False False False False False False"
  by (simp add: frameworks_init_def flags_def)

lemma setitem_flags:
  "setitem (flags r v a n w s sh wb) ''React'' True = flags True v a n w s sh wb"
  "setitem (flags r v a n w s sh wb) ''Angular'' True = flags r v True n w s sh wb"
  "setitem (flags r v a n w s sh wb) ''Next.js'' True = flags r v a True w s sh wb"
  "setitem (flags r v a n w s sh wb) ''Wix'' True = flags r v a n True s sh wb"
  "setitem (flags r v a n w s sh wb) ''Squarespace'' True = flags r v a n w True sh wb"
  "setitem (flags r v a n w s sh wb) ''Shopify'' True = flags r v a n w s True wb"
  "setitem (flags r v a n w s sh wb) ''Webflow'' True = flags r v a n w s sh True"
  by (simp_all add: flags_def)

lemma check_meta_flags:
  "check_meta (flags r v a n w s sh wb) t =
     (let m = first_match (lower (tag_get t ''content'' ''''))
      in flags (r \<or> m = Some ''React'') v (a \<or> m = Some ''Angular'')
           (n \<or> m = Some ''Next.js'') w s sh wb)"
  by (simp add: check_meta_def first_match_def setitem_flags Let_def)

lemma check_script_flags:
  "check_script (flags r v a n w s sh wb) t =
     (let m = first_match (lower (tag_get t ''src'' ''''))
      in flags (r \<or> m = Some ''React'') v (a \<or> m = Some ''Angular'')
           (n \<or> m = Some ''Next.js'') w s sh wb)"
  by (simp add: check_script_def first_match_def setitem_flags Let_def)

lemma foldl_check_meta_flags:
  "foldl check_meta (flags r v a n w s sh wb) ts =
     flags (r \<or> tag_hits ''content'' ts ''React'') v (a \<or> tag_hits ''content'' ts ''Angular'')
       (n \<or> tag_hits ''content'' ts ''Next.js'') w s sh wb"
proof (induction ts arbitrary: r a n)
  case Nil
  show ?case by (simp add: tag_hits_def)
next
  case (Cons t ts)
  show ?case
    by (simp add: check_meta_flags Let_def Cons.IH tag_hits_def disj.assoc)
qed

lemma foldl_check_script_flags:
  "foldl check_script (flags r v a n w s sh wb) ts =
     flags (r \<or> tag_hits ''src'' ts ''React'') v (a \<or> tag_hits ''src'' ts ''Angular'')
       (n \<or> tag_hits ''src'' ts ''Next.js'') w s sh wb"
proof (induction ts arbitrary: r a n)
  case Nil
  show ?case by (simp add: tag_hits_def)
next
  case (Cons t ts)
  show ?case
    by (simp add: check_script_flags Let_def Cons.IH tag_hits_def disj.assoc)
qed

lemma check_indicators_flags:
  "check_indicators (flags r v a n w s sh wb) ps =
     flags (r \<or> react_marker ps) v (a \<or> angular_marker ps) (n \<or> next_marker ps) w s sh wb"
  by (simp add: check_indicators_def setitem_flags Let_def)

lemma check_builders_flags:
  "check_builders (flags r v a n w s sh wb) url ps =
     flags r v a n (w \<or> wix_signature url ps) (s \<or> squarespace_signature ps)
       (sh \<or> shopify_signature ps) (wb \<or> webflow_signature ps)"
  by (simp add: check_builders_def setitem_flags Let_def)

lemma scan_flags:
  "scan url s =
     flags (evidence s ''React'' \<or> react_marker (lower (markup s))) False
       (evidence s ''Angular'' \<or> angular_marker (lower (markup s)))
       (evidence s ''Next.js'' \<or> next_marker (lower (markup s)))
       (wix_signature url (lower (markup s))) (squarespace_signature (lower (markup s)))
       (shopify_signature (lower (markup s))) (webflow_signature (lower (markup s)))"
  by (simp add: scan_def frameworks_init_flags foldl_check_meta_flags foldl_check_script_flags
      check_indicators_flags check_builders_flags evidence_def Let_def)

text \<open>All eight keys are present, so neither comprehension raises \<open>KeyError\<close>.\<close>

lemma detected_builders_flags:
  "detected_builders (flags r v a n w s sh wb) site_builders =
     Inr ((if w then [''Wix''] else []) @ (if s then [''Squarespace''] else [])
          @ (if sh then [''Shopify''] else []) @ (if wb then [''Webflow''] else []))"
  by (simp add: flags_def site_builders_def)

lemma detected_flags:
  "detected (flags r v a n w s sh wb) =
     (if r then [''React''] else []) @ (if v then [''Vue''] else [])
     @ (if a then [''Angular''] else []) @ (if n then [''Next.js''] else [])
     @ (if w then [''Wix''] else []) @ (if s then [''Squarespace''] else [])
     @ (if sh then [''Shopify''] else []) @ (if wb then [''Webflow''] else [])"
  by (simp add: flags_def detected_def)

lemma filter_site_builders:
  "filter (builder_matches url ps) site_builders =
     (if wix_signature url ps then [''Wix''] else [])
     @ (if squarespace_signature ps then [''Squarespace''] else [])
     @ (if shopify_signature ps then [''Shopify''] else [])
     @ (if webflow_signature ps then [''Webflow''] else [])"
  by (simp add: builder_matches_def site_builders_def)

lemma filter_js_frameworks:
  "filter (framework_matches s) js_frameworks =
     (if evidence s ''React'' \<or> react_marker (lower (markup s)) then [''React''] else [])
     @ (if evidence s ''Angular'' \<or> angular_marker (lower (markup s)) then [''Angular''] else [])
     @ (if evidence s ''Next.js'' \<or> next_marker (lower (markup s)) then [''Next.js''] else [])"
  by (simp add: framework_matches_def js_frameworks_def)

text \<open>
  What \<open>classify\<close> computes, without the dictionary: the builders whose signature matches,
  in the order of \<open>site_builders\<close>, decide first; otherwise the frameworks with evidence,
  in the order of the dictionary's keys.
\<close>

lemma classify_char:
  "classify url s =
     (let builders = filter (builder_matches url (lower (markup s))) site_builders;
          found = filter (framework_matches s) js_frameworks
      in if builders \<noteq> [] then Failure (''Framework not supported: '' @ join '', '' builders)
         else if found \<noteq> [] then Success found
         else Success [''Unknown''])"
proof -
  let ?ps = "lower (markup s)"
  let ?bs = "filter (builder_matches url ?ps) site_builders"
  have b: "detected_builders (scan url s) site_builders = Inr ?bs"
    by (simp only: scan_flags detected_builders_flags filter_site_builders)
  show ?thesis
  proof (cases "?bs = []")
    case False
    then show ?thesis by (simp add: classify_def b Let_def)
  next
    case True
    then have none: "\<not> wix_signature url ?ps" "\<not> squarespace_signature ?ps"
      "\<not> shopify_signature ?ps" "\<not> webflow_signature ?ps"
      by (auto simp: filter_site_builders split: if_splits)
    have "detected (scan url s) = filter (framework_matches s) js_frameworks"
      by (simp add: scan_flags detected_flags filter_js_frameworks none)
    with True show ?thesis by (simp add: classify_def b Let_def)
  qed
qed

lemma tag_hits_no_token:
  assumes "\<forall>t \<in> set ts. \<not> occurs_in ''react'' (lower (tag_get t attr ''''))
             \<and> \<not> occurs_in ''angular'' (lower (tag_get t attr ''''))
             \<and> \<not> occurs_in ''next'' (lower (tag_get t attr ''''))"
  shows "\<not> tag_hits attr ts fw"
  using assms by (auto simp: tag_hits_def first_match_def)

lemma tag_hits_map:
  "tag_hits attr ts fw \<longleftrightarrow>
     (\<exists>c \<in> set (map (\<lambda>t. lower (tag_get t attr '''')) ts). first_match c = Some fw)"
  by (auto simp: tag_hits_def)

lemma map_of_nonempty: "map_of kvs k = Some v \<Longrightarrow> kvs \<noteq> []"
  by auto

section \<open>The handler and the network\<close>

text \<open>A valid request does reach \<open>requests.get\<close>: the list of fetched URLs grows by one.\<close>

lemma valid_request_fetches:
  assumes "valid_request req"
  shows "\<exists>u result. check_site env req fetched = ((200, result), fetched @ [u])"
  using assms
  by (auto simp: valid_request_def check_site_def detect_framework_def Let_def
      split: body.splits json.splits sum.splits bool.splits option.splits if_splits)

text \<open>The verdict does not depend on what was fetched before.\<close>

lemma detect_framework_history:
  "fst (detect_framework env url fetched) = fst (detect_framework env url fetched')"
  by (simp add: detect_framework_def Let_def)

lemma check_site_history:
  "fst (check_site env req fetched) = fst (check_site env req fetched')"
  by (auto simp: check_site_def Let_def detect_framework_def
      split: body.splits json.splits sum.splits bool.splits)

section \<open>Properties of the classifier\<close>

lemmas scan_defs =
  tag_get_def lower_def lower_char_def react_marker_def angular_marker_def next_marker_def
  wix_signature_def squarespace_signature_def shopify_signature_def webflow_signature_def

text \<open>
  What the four tests of lines 118 to 125 do when one of them fires: the classifier returns
  \<open>compatible = False\<close>, whatever framework evidence the document holds, and the error text
  names a builder exactly when its test fired.
\<close>

lemma builder_test_refuses:
  assumes "wix_signature url (lower (markup s)) \<or> squarespace_signature (lower (markup s))
           \<or> shopify_signature (lower (markup s)) \<or> webflow_signature (lower (markup s))"
  shows "\<exists>e. classify url s = Failure e \<and> \<not> compatible (classify url s)
           \<and> (occurs_in ''Wix'' e \<longleftrightarrow> wix_signature url (lower (markup s)))
           \<and> (occurs_in ''Squarespace'' e \<longleftrightarrow> squarespace_signature (lower (markup s)))
           \<and> (occurs_in ''Shopify'' e \<longleftrightarrow> shopify_signature (lower (markup s)))
           \<and> (occurs_in ''Webflow'' e \<longleftrightarrow> webflow_signature (lower (markup s)))"
  using assms
  by (cases "wix_signature url (lower (markup s))";
      cases "squarespace_signature (lower (markup s))";
      cases "shopify_signature (lower (markup s))";
      cases "webflow_signature (lower (markup s))";
      simp add: classify_char filter_site_builders)

text \<open>
  C1. A document in which a site-builder signature occurs should be refused. The code
  misses it for the generator signatures of Squarespace and Webflow: the page
  \<open><meta content="Squarespace">\<close> contains the signature
  \<open>content="Squarespace"\<close> of line 120, yet the pattern is searched in the lowercased
  page source, never fires, and the page is answered \<open>compatible = True\<close> with frameworks
  \<open>["Unknown"]\<close>; likewise for Webflow (line 124). The same tag of a Shopify page is
  refused, because line 122 also searches for the lowercase \<open>shopify\<close>.
\<close>

theorem generator_signature_not_refused:
  \<open>occurs_in ''content="Squarespace"'' (markup squarespace_page)
   \<and> classify ''https://example.com'' squarespace_page = Success [''Unknown'']
   \<and> compatible (classify ''https://example.com'' squarespace_page)
   \<and> occurs_in ''content="Webflow"'' (markup webflow_page)
   \<and> classify ''https://example.com'' webflow_page = Success [''Unknown'']
   \<and> occurs_in ''content="Shopify"'' (markup shopify_generator_page)
   \<and> classify ''https://example.com'' shopify_generator_page
       = Failure ''Framework not supported: Shopify''\<close>
  by code_simp

text \<open>
  C2, as amended. For a document with one meta tag whose content is \<open>react angular\<close>, no
  script tag and no builder signature: the scan of the meta tags sets the React flag and
  nothing else; the result is compatible and lists React first; Angular is listed as well
  exactly when the lowercased page source contains \<open>ng-\<close> or \<open>angular\<close>, which it does
  whenever the page source contains the tag's own content.
\<close>

theorem meta_tag_first_match:
  assumes "meta_tags s = [t]"
    and "tag_get t ''content'' '''' = ''react angular''"
    and "script_tags s = []"
    and "\<not> wix_signature url (lower (markup s))"
    and "\<not> squarespace_signature (lower (markup s))"
    and "\<not> shopify_signature (lower (markup s))"
    and "\<not> webflow_signature (lower (markup s))"
  shows "foldl check_meta frameworks_init (meta_tags s) = setitem frameworks_init ''React'' True
         \<and> classify url s =
             Success (''React'' # (if angular_marker (lower (markup s)) then [''Angular''] else [])
                      @ (if next_marker (lower (markup s)) then [''Next.js''] else []))
         \<and> (occurs_in ''react angular'' (lower (markup s)) \<longrightarrow> angular_marker (lower (markup s)))"
proof -
  have low: "lower ''react angular'' = ''react angular''"
    by (simp add: lower_def lower_char_def)
  have fm: "first_match ''react angular'' = Some ''React''"
    by (simp add: first_match_def)
  have hits: "tag_hits ''content'' (meta_tags s) fw \<longleftrightarrow> fw = ''React''" for fw
    unfolding tag_hits_def assms(1) by (auto simp: assms(2) low fm)
  have nos: "\<not> tag_hits ''src'' (script_tags s) fw" for fw
    by (simp add: assms(3) tag_hits_def)
  have ev: "evidence s fw \<longleftrightarrow> fw = ''React''" for fw
    by (simp add: evidence_def hits nos)
  have 1: "foldl check_meta frameworks_init (meta_tags s) = setitem frameworks_init ''React'' True"
    by (simp add: assms(1,2) check_meta_def low)
  have 2: "classify url s =
             Success (''React'' # (if angular_marker (lower (markup s)) then [''Angular''] else [])
                      @ (if next_marker (lower (markup s)) then [''Next.js''] else []))"
    using assms(4-7) by (simp add: classify_char filter_site_builders filter_js_frameworks ev)
  have 3: "occurs_in ''react angular'' (lower (markup s)) \<longrightarrow> angular_marker (lower (markup s))"
  proof
    assume "occurs_in ''react angular'' (lower (markup s))"
    then have "sublist (''react '' @ ''angular'' @ []) (lower (markup s))"
      by (simp add: occurs_in_sublist)
    then have "sublist ''angular'' (lower (markup s))"
      by (meson sublist_appendI sublist_order.order_trans)
    then show "angular_marker (lower (markup s))"
      by (simp add: angular_marker_def occurs_in_sublist)
  qed
  from 1 2 3 show ?thesis by blast
qed

theorem meta_tag_first_match_witness:
  "foldl check_meta frameworks_init (meta_tags one_meta_page)
     = setitem frameworks_init ''React'' True
   \<and> classify ''https://example.com'' one_meta_page = Success [''React'', ''Angular'']"
proof -
  have a: "angular_marker (lower (markup one_meta_page))"
    and n: "\<not> next_marker (lower (markup one_meta_page))"
    by (simp_all add: one_meta_page_def scan_defs)
  have "foldl check_meta frameworks_init (meta_tags one_meta_page)
          = setitem frameworks_init ''React'' True
        \<and> classify ''https://example.com'' one_meta_page =
            Success (''React''
              # (if angular_marker (lower (markup one_meta_page)) then [''Angular''] else [])
              @ (if next_marker (lower (markup one_meta_page)) then [''Next.js''] else []))
        \<and> (occurs_in ''react angular'' (lower (markup one_meta_page))
             \<longrightarrow> angular_marker (lower (markup one_meta_page)))"
    by (rule meta_tag_first_match [where t = "[(''content'', ''react angular'')]"])
       (simp_all add: one_meta_page_def scan_defs)
  with a n show ?thesis by simp
qed

text \<open>
  C2, as stated, fails on the page \<open><meta content="react angular">\<close>: its page source
  contains the tag, hence \<open>angular\<close>, and line 112 sets the Angular flag.
\<close>

theorem meta_tag_only_react_counterexample:
  "meta_tags one_meta_page = [[(''content'', ''react angular'')]]
   \<and> script_tags one_meta_page = []
   \<and> classify ''https://example.com'' one_meta_page = Success [''React'', ''Angular'']"
  by (simp add: one_meta_page_def classify_def scan_def check_meta_def check_indicators_def
      check_builders_def frameworks_init_def site_builders_def detected_def scan_defs)

text \<open>
  C3. A document without evidence (no meta content and no script src containing
  \<open>react\<close>, \<open>angular\<close> or \<open>next\<close>, no marker and no builder signature in the lowercased
  page source, no \<open>wixsite.com\<close> in the URL) is compatible with frameworks \<open>["Unknown"]\<close>.
\<close>

theorem no_evidence_unknown:
  assumes "\<forall>t \<in> set (meta_tags s). \<not> occurs_in ''react'' (lower (tag_get t ''content'' ''''))
             \<and> \<not> occurs_in ''angular'' (lower (tag_get t ''content'' ''''))
             \<and> \<not> occurs_in ''next'' (lower (tag_get t ''content'' ''''))"
    and "\<forall>t \<in> set (script_tags s). \<not> occurs_in ''react'' (lower (tag_get t ''src'' ''''))
             \<and> \<not> occurs_in ''angular'' (lower (tag_get t ''src'' ''''))
             \<and> \<not> occurs_in ''next'' (lower (tag_get t ''src'' ''''))"
    and "\<not> react_marker (lower (markup s))"
    and "\<not> angular_marker (lower (markup s))"
    and "\<not> next_marker (lower (markup s))"
    and "\<not> wix_signature url (lower (markup s))"
    and "\<not> squarespace_signature (lower (markup s))"
    and "\<not> shopify_signature (lower (markup s))"
    and "\<not> webflow_signature (lower (markup s))"
  shows "classify url s = Success [''Unknown'']"
proof -
  have "\<not> evidence s fw" for fw
    using tag_hits_no_token [OF assms(1)] tag_hits_no_token [OF assms(2)]
    by (simp add: evidence_def)
  then show ?thesis
    using assms(3-9) by (simp add: classify_char filter_site_builders filter_js_frameworks)
qed

theorem no_evidence_unknown_witness:
  "classify ''https://example.com'' plain_page = Success [''Unknown'']"
  by (rule no_evidence_unknown) (simp_all add: plain_page_def scan_defs)

text \<open>
  C4. A URL that contains \<open>wixsite.com\<close> is refused when the page fetched for it is empty:
  the result is \<open>compatible = False\<close> and the error, \<open>Framework not supported: Wix\<close>,
  mentions Wix. The URL alone is the evidence.
\<close>

theorem wixsite_url_refused:
  assumes "occurs_in ''wixsite.com'' url0"
    and "requests_get env (with_scheme url0) = Response html"
    and "BeautifulSoup env html = Parsed \<lparr>meta_tags = [], script_tags = [], markup = ''''\<rparr>"
  shows "\<exists>e. fst (detect_framework env url0 fetched) = Failure e
           \<and> \<not> compatible (fst (detect_framework env url0 fetched))
           \<and> e = ''Framework not supported: Wix'' \<and> occurs_in ''Wix'' e"
proof -
  have a: "occurs_in ''wixsite.com'' (''https://'' @ url0)"
    using assms(1) by (rule occurs_in_append)
  have "with_scheme url0 = url0 \<or> with_scheme url0 = ''https://'' @ url0"
    by (simp add: with_scheme_def)
  then have "occurs_in ''wixsite.com'' (with_scheme url0)"
    using assms(1) a by metis
  then have w: "wix_signature (with_scheme url0) p" for p
    by (simp add: wix_signature_def)
  have l: "lower '''' = ''''" by (simp add: lower_def)
  have "classify (with_scheme url0) \<lparr>meta_tags = [], script_tags = [], markup = ''''\<rparr>
          = Failure ''Framework not supported: Wix''"
    by (simp add: classify_char filter_site_builders w l squarespace_signature_def
        shopify_signature_def webflow_signature_def)
  then show ?thesis
    by (simp add: detect_framework_def assms(2,3))
qed

theorem wixsite_url_refused_witness:
  "fst (detect_framework blank_env ''mysite.wixsite.com'' []) =
     Failure ''Framework not supported: Wix''"
proof -
  have "\<exists>e. fst (detect_framework blank_env ''mysite.wixsite.com'' []) = Failure e
          \<and> \<not> compatible (fst (detect_framework blank_env ''mysite.wixsite.com'' []))
          \<and> e = ''Framework not supported: Wix'' \<and> occurs_in ''Wix'' e"
    by (rule wixsite_url_refused [where html = "''''"]) (simp_all add: blank_env_def)
  then show ?thesis by blast
qed

text \<open>
  C5. When the builders whose signature matches, taken in the order Wix, Squarespace,
  Shopify, Webflow, are not none, the error is \<open>Framework not supported: \<close> followed by
  their names joined by a comma and a space, in that order.
\<close>

theorem builder_error_text:
  assumes "builders = filter (builder_matches url (lower (markup s))) site_builders"
    and "builders \<noteq> []"
  shows "classify url s = Failure (''Framework not supported: '' @ join '', '' builders)
         \<and> subseq builders [''Wix'', ''Squarespace'', ''Shopify'', ''Webflow'']
         \<and> set builders = {b. builder_matches url (lower (markup s)) b}"
proof -
  have "set builders = {b. builder_matches url (lower (markup s)) b}"
    unfolding assms(1) by (auto simp: builder_matches_def site_builders_def)
  moreover have "subseq builders [''Wix'', ''Squarespace'', ''Shopify'', ''Webflow'']"
    unfolding assms(1) site_builders_def by (rule subseq_filter_left)
  moreover have "classify url s = Failure (''Framework not supported: '' @ join '', '' builders)"
    using assms by (simp add: classify_char Let_def)
  ultimately show ?thesis by blast
qed

text \<open>The witness is the Shopify storefront served from a \<open>wixsite.com\<close> address.\<close>

theorem builder_error_text_witness:
  "classify ''https://mysite.wixsite.com/shop'' shop_page =
     Failure ''Framework not supported: Wix, Shopify''"
proof -
  have b: "[''Wix'', ''Shopify''] =
      filter (builder_matches ''https://mysite.wixsite.com/shop'' (lower (markup shop_page)))
        site_builders"
    by (simp add: filter_site_builders shop_page_def scan_defs)
  have "classify ''https://mysite.wixsite.com/shop'' shop_page =
          Failure (''Framework not supported: '' @ join '', '' [''Wix'', ''Shopify''])
        \<and> subseq [''Wix'', ''Shopify''] [''Wix'', ''Squarespace'', ''Shopify'', ''Webflow'']
        \<and> set [''Wix'', ''Shopify''] =
            {b. builder_matches ''https://mysite.wixsite.com/shop'' (lower (markup shop_page)) b}"
    by (rule builder_error_text [OF b]) simp
  then show ?thesis by simp
qed

text \<open>
  C6. A valid request whose fetch times out is answered with status 200 and the dictionary
  \<open>{'compatible': False, 'error': 'Request timed out. Please check the URL and try again.'}\<close>.
\<close>

theorem timeout_response:
  assumes "req = Json (JObject kvs)"
    and "map_of kvs ''url'' = Some (JString u)"
    and "strip u \<noteq> []"
    and "requests_get env (with_scheme (strip u)) = Timeout"
  shows "check_site env req fetched =
           ((200, Failure ''Request timed out. Please check the URL and try again.''),
            fetched @ [with_scheme (strip u)])"
  using assms map_of_nonempty [OF assms(2)]
  by (simp add: check_site_def detect_framework_def)

theorem timeout_response_witness:
  "check_site timeout_env (Json (JObject [(''url'', JString ''example.com'')])) [] =
     ((200, Failure ''Request timed out. Please check the URL and try again.''),
      [''https://example.com''])"
proof -
  have s: "strip ''example.com'' = ''example.com''"
    by (simp add: strip_def isspace_def)
  have w: "with_scheme ''example.com'' = ''https://example.com''"
    by (simp add: with_scheme_def startswith_def)
  have "check_site timeout_env (Json (JObject [(''url'', JString ''example.com'')])) [] =
          ((200, Failure ''Request timed out. Please check the URL and try again.''),
           [] @ [with_scheme (strip ''example.com'')])"
    by (rule timeout_response [where kvs = "[(''url'', JString ''example.com'')]"])
       (simp_all add: s timeout_env_def)
  then show ?thesis by (simp add: s w)
qed

text \<open>
  C7. A request that is not valid (no body, a body that is not an object, no \<open>url\<close> key, a
  \<open>url\<close> that is not a string or is empty once stripped) is answered with a dictionary
  \<open>{'compatible': False, 'error': message}\<close> and status 400 or 500, and nothing is fetched.
\<close>

theorem malformed_request_rejected:
  assumes "\<not> valid_request req"
  shows "\<exists>status message. check_site env req fetched = ((status, Failure message), fetched)
           \<and> (status = 400 \<or> status = 500)"
  using assms
  by (auto simp: valid_request_def check_site_def
      split: body.splits json.splits sum.splits bool.splits option.splits if_splits)

theorem malformed_request_rejected_witness:
  "\<not> valid_request (Json (JObject [(''url'', JString ''   '')]))
   \<and> (\<exists>status message.
        check_site blank_env (Json (JObject [(''url'', JString ''   '')])) [''https://a.example'']
          = ((status, Failure message), [''https://a.example''])
        \<and> (status = 400 \<or> status = 500))"
proof -
  have h: "\<not> valid_request (Json (JObject [(''url'', JString ''   '')]))"
    by (simp add: valid_request_def strip_def isspace_def)
  from h malformed_request_rejected [OF h, of blank_env "[''https://a.example'']"]
  show ?thesis by blast
qed

text \<open>
  C8. A document whose markup contains \<open>data-reactroot\<close> and in which no builder signature
  matches is compatible, and React is among its frameworks.
\<close>

theorem reactroot_detected:
  assumes "occurs_in ''data-reactroot'' (markup s)
           \<or> occurs_in ''data-reactroot'' (lower (markup s))"
    and "\<not> wix_signature url (lower (markup s))"
    and "\<not> squarespace_signature (lower (markup s))"
    and "\<not> shopify_signature (lower (markup s))"
    and "\<not> webflow_signature (lower (markup s))"
  shows "\<exists>fs. classify url s = Success fs \<and> compatible (classify url s) \<and> ''React'' \<in> set fs"
proof -
  from assms(1) have "occurs_in ''data-reactroot'' (lower (markup s))"
    using occurs_in_lower [OF _ lower_data_reactroot] by blast
  then have "react_marker (lower (markup s))"
    by (simp add: react_marker_def)
  then show ?thesis
    using assms(2-5) by (simp add: classify_char filter_site_builders filter_js_frameworks)
qed

theorem reactroot_detected_witness:
  "\<exists>fs. classify ''https://app.example'' react_page = Success fs
     \<and> compatible (classify ''https://app.example'' react_page) \<and> ''React'' \<in> set fs"
  by (rule reactroot_detected) (simp_all add: react_page_def scan_defs)

text \<open>
  C9. When the classifier returns \<open>compatible = True\<close>, the frameworks list is not empty;
  it is \<open>["Unknown"]\<close> or a subsequence of React, Angular, Next.js; and it names neither Vue
  nor a site builder.
\<close>

theorem compatible_frameworks_shape:
  assumes "compatible (classify url s)"
  shows "\<exists>fs. classify url s = Success fs \<and> fs \<noteq> []
           \<and> (fs = [''Unknown''] \<or> subseq fs [''React'', ''Angular'', ''Next.js''])
           \<and> ''Vue'' \<notin> set fs \<and> ''Wix'' \<notin> set fs \<and> ''Squarespace'' \<notin> set fs
           \<and> ''Shopify'' \<notin> set fs \<and> ''Webflow'' \<notin> set fs"
proof -
  let ?bs = "filter (builder_matches url (lower (markup s))) site_builders"
  let ?fs = "filter (framework_matches s) js_frameworks"
  from assms have nb: "?bs = []"
    by (auto simp: classify_char Let_def split: if_splits)
  have sub: "subseq ?fs [''React'', ''Angular'', ''Next.js'']"
    unfolding js_frameworks_def by (rule subseq_filter_left)
  have names: "set ?fs \<subseteq> {''React'', ''Angular'', ''Next.js''}"
    by (auto simp: js_frameworks_def)
  show ?thesis
  proof (cases "?fs = []")
    case True
    with nb show ?thesis by (simp add: classify_char Let_def)
  next
    case False
    with nb have "classify url s = Success ?fs" by (simp add: classify_char Let_def)
    moreover from names have "''Vue'' \<notin> set ?fs" "''Wix'' \<notin> set ?fs" "''Squarespace'' \<notin> set ?fs"
      "''Shopify'' \<notin> set ?fs" "''Webflow'' \<notin> set ?fs" by auto
    ultimately show ?thesis using False sub by simp
  qed
qed

theorem compatible_frameworks_shape_witness:
  "compatible (classify ''https://example.com'' one_meta_page)
   \<and> (\<exists>fs. classify ''https://example.com'' one_meta_page = Success fs \<and> fs \<noteq> []
         \<and> subseq fs [''React'', ''Angular'', ''Next.js''] \<and> ''Vue'' \<notin> set fs)"
proof -
  have c: "classify ''https://example.com'' one_meta_page = Success [''React'', ''Angular'']"
    by (simp add: one_meta_page_def classify_def scan_def check_meta_def check_indicators_def
        check_builders_def frameworks_init_def site_builders_def detected_def scan_defs)
  then have h: "compatible (classify ''https://example.com'' one_meta_page)"
    by simp
  from compatible_frameworks_shape [OF h] c h show ?thesis by auto
qed

text \<open>
  C10. The result of the classifier is determined by the URL and by the lowercased meta
  contents, script sources and page source: two documents that agree on them, and so two
  calls on one document, get the same result.
\<close>

theorem classify_deterministic:
  assumes "map (\<lambda>t. lower (tag_get t ''content'' '''')) (meta_tags s1)
             = map (\<lambda>t. lower (tag_get t ''content'' '''')) (meta_tags s2)"
    and "map (\<lambda>t. lower (tag_get t ''src'' '''')) (script_tags s1)
             = map (\<lambda>t. lower (tag_get t ''src'' '''')) (script_tags s2)"
    and "lower (markup s1) = lower (markup s2)"
  shows "classify url s1 = classify url s2"
proof -
  have "evidence s1 fw = evidence s2 fw" for fw
    unfolding evidence_def tag_hits_map assms(1,2) ..
  then have "framework_matches s1 = framework_matches s2"
    by (simp add: framework_matches_def fun_eq_iff assms(3))
  then show ?thesis
    by (simp add: classify_char assms(3))
qed

theorem classify_deterministic_witness:
  "classify ''https://example.com'' title_case_page
     = classify ''https://example.com'' lower_case_page"
  by (rule classify_deterministic; code_simp)

end
